theory Spec2Isabelle
  imports Main "HOL-Library.Multiset"
begin

section \<open>JavaScript values\<close>

text \<open>
  The backend handles dynamically typed values: the summary returned by the NLP service,
  the \<open>text\<close> field of a translate request and the JSON bodies of the responses.
  They are modelled by one datatype. An object is the list of its own enumerable entries in
  the order \<open>Object.entries\<close> yields them (keys of a JavaScript object are distinct);
  a number is an integer that JavaScript holds exactly and prints in decimal; a \<open>Date\<close>
  is represented by its epoch milliseconds and an ObjectId by its string.
\<close>

datatype jsval =
    JUndefined
  | JNull
  | JBool bool
  | JNum int
  | JStr string
  | JArr "jsval list"
  | JObj "(string \<times> jsval) list"

text \<open>\<open>!v\<close> is false exactly for the truthy values.\<close>

fun js_truthy :: "jsval \<Rightarrow> bool" where
  "js_truthy JUndefined = False"
| "js_truthy JNull = False"
| "js_truthy (JBool b) = b"
| "js_truthy (JNum n) = (n \<noteq> 0)"
| "js_truthy (JStr s) = (s \<noteq> [])"
| "js_truthy (JArr xs) = True"
| "js_truthy (JObj kvs) = True"

text \<open>Property read \<open>obj.k\<close> on a parsed JSON object: \<open>undefined\<close> when the key is absent.\<close>

definition js_get :: "(string \<times> jsval) list \<Rightarrow> string \<Rightarrow> jsval" where
  "js_get kvs k = (case map_of kvs k of None \<Rightarrow> JUndefined | Some v \<Rightarrow> v)"

text \<open>The keys of an object, \<open>[]\<close> for every other value.\<close>

fun js_keys :: "jsval \<Rightarrow> string list" where
  "js_keys (JObj kvs) = map fst kvs"
| "js_keys v = []"

text \<open>Decimal rendering of an array index, as \<open>Object.entries\<close> names the entries of an array.\<close>

fun string_of_nat :: "nat \<Rightarrow> string" where
  "string_of_nat n =
     (if n < 10 then [''0123456789'' ! n]
      else string_of_nat (n div 10) @ [''0123456789'' ! (n mod 10)])"

definition string_of_int :: "int \<Rightarrow> string" where
  "string_of_int n = (if n < 0 then CHR ''-'' # string_of_nat (nat (- n)) else string_of_nat (nat n))"

record response =
  res_status :: nat
  res_json :: jsval

section \<open>Translation (index.js, POST /api/translate)\<close>

text \<open>
  The external translation service for one target language. \<open>answer s\<close> is the outcome of
  the call \<open>translate(s, {to: target})\<close>: it resolves to the translated text (\<open>Inr\<close>) or
  rejects with an error message (\<open>Inl\<close>). Calls started by the callbacks of one
  \<open>Promise.all\<close> run concurrently, and the rejection that is reported is the one that
  arrives first; \<open>earliest\<close> names it among the messages of the rejections that race.

  An asynchronous computation is modelled by the multiset of the strings it submits to the
  service (the order in time of concurrent calls is not fixed by the program) and its
  outcome: the value it resolves to, or the messages of the rejections of which one is
  reported.
\<close>

record translator =
  answer :: "string \<Rightarrow> string + string"
  earliest :: "string list \<Rightarrow> string"

type_synonym 'a async = "string multiset \<times> (string list + 'a)"

definition translate_call :: "translator \<Rightarrow> string \<Rightarrow> jsval async" where
  "translate_call tr s =
     ({#s#}, case answer tr s of Inl m \<Rightarrow> Inl [m] | Inr r \<Rightarrow> Inr (JStr r))"

text \<open>
  The assignment \<open>translated[key] = v\<close> on the object under construction. A key named
  \<open>__proto__\<close> reaches the prototype setter and leaves no property behind.
\<close>

definition assign :: "string \<Rightarrow> jsval \<Rightarrow> (string \<times> jsval) list \<Rightarrow> (string \<times> jsval) list" where
  "assign k v entries = (if k = ''__proto__'' then entries else (k, v) # entries)"

text \<open>
  \<open>Object.entries\<close> of a string enumerates its characters, each a string value that the loop
  body translates. No call site of \<open>translateObject\<close> passes a string (each tests
  \<open>typeof ... === 'string'\<close> first); the case is kept so that the model is total.
\<close>

fun translateChars :: "translator \<Rightarrow> nat \<Rightarrow> string \<Rightarrow> (string \<times> jsval) list async" where
  "translateChars tr i [] = ({#}, Inr [])"
| "translateChars tr i (c # cs) =
     (case translate_call tr [c] of
        (l, Inl ms) \<Rightarrow> (l, Inl ms)
      | (l, Inr v') \<Rightarrow>
          (case translateChars tr (Suc i) cs of
             (l', r) \<Rightarrow> (l + l', map_sum id (assign (string_of_nat i) v') r)))"

text \<open>
  \<open>translateObject\<close> (index.js lines 302-323). \<open>translateEntries\<close> is the
  \<open>for (const [key, value] of Object.entries(obj))\<close> loop over an object and
  \<open>translateIndexed\<close> the same loop over an array, whose keys are its indices;
  \<open>translateValue\<close> is the loop body, \<open>translateItem\<close> the callback of
  \<open>value.map\<close> and \<open>translateItems\<close> the \<open>Promise.all\<close> over the mapped array.
  The loop awaits each entry, so it stops at the first entry that rejects. The callbacks
  of \<open>Promise.all\<close> all run, whichever of them rejects, so all their calls are submitted
  and every rejection among them may be the one that is reported.
  \<open>Object.entries\<close> throws a TypeError on \<open>null\<close> and \<open>undefined\<close> and is empty for
  numbers and booleans.
\<close>

fun translateObject :: "translator \<Rightarrow> jsval \<Rightarrow> jsval async"
and translateEntries :: "translator \<Rightarrow> (string \<times> jsval) list \<Rightarrow> (string \<times> jsval) list async"
and translateIndexed :: "translator \<Rightarrow> nat \<Rightarrow> jsval list \<Rightarrow> (string \<times> jsval) list async"
and translateValue :: "translator \<Rightarrow> jsval \<Rightarrow> jsval async"
and translateItem :: "translator \<Rightarrow> jsval \<Rightarrow> jsval async"
and translateItems :: "translator \<Rightarrow> jsval list \<Rightarrow> jsval list async"
where
  "translateObject tr JUndefined = ({#}, Inl [''Cannot convert undefined or null to object''])"
| "translateObject tr JNull = ({#}, Inl [''Cannot convert undefined or null to object''])"
| "translateObject tr (JBool b) = ({#}, Inr (JObj []))"
| "translateObject tr (JNum n) = ({#}, Inr (JObj []))"
| "translateObject tr (JStr s) =
     (case translateChars tr 0 s of (l, r) \<Rightarrow> (l, map_sum id JObj r))"
| "translateObject tr (JArr xs) =
     (case translateIndexed tr 0 xs of (l, r) \<Rightarrow> (l, map_sum id JObj r))"
| "translateObject tr (JObj kvs) =
     (case translateEntries tr kvs of (l, r) \<Rightarrow> (l, map_sum id JObj r))"
| "translateEntries tr [] = ({#}, Inr [])"
| "translateEntries tr ((k, v) # kvs) =
     (case translateValue tr v of
        (l, Inl ms) \<Rightarrow> (l, Inl ms)
      | (l, Inr v') \<Rightarrow>
          (case translateEntries tr kvs of
             (l', r) \<Rightarrow> (l + l', map_sum id (assign k v') r)))"
| "translateIndexed tr i [] = ({#}, Inr [])"
| "translateIndexed tr i (v # vs) =
     (case translateValue tr v of
        (l, Inl ms) \<Rightarrow> (l, Inl ms)
      | (l, Inr v') \<Rightarrow>
          (case translateIndexed tr (Suc i) vs of
             (l', r) \<Rightarrow> (l + l', map_sum id (assign (string_of_nat i) v') r)))"
| "translateValue tr (JArr items) =
     (case translateItems tr items of (l, r) \<Rightarrow> (l, map_sum id JArr r))"
| "translateValue tr (JObj kvs) = translateObject tr (JObj kvs)"
| "translateValue tr (JStr s) = translate_call tr s"
| "translateValue tr JUndefined = ({#}, Inr JUndefined)"
| "translateValue tr JNull = ({#}, Inr JNull)"
| "translateValue tr (JBool b) = ({#}, Inr (JBool b))"
| "translateValue tr (JNum n) = ({#}, Inr (JNum n))"
| "translateItem tr (JStr s) = translate_call tr s"
| "translateItem tr JUndefined = translateObject tr JUndefined"
| "translateItem tr JNull = translateObject tr JNull"
| "translateItem tr (JBool b) = translateObject tr (JBool b)"
| "translateItem tr (JNum n) = translateObject tr (JNum n)"
| "translateItem tr (JArr xs) = translateObject tr (JArr xs)"
| "translateItem tr (JObj kvs) = translateObject tr (JObj kvs)"
| "translateItems tr [] = ({#}, Inr [])"
| "translateItems tr (x # xs) =
     (case translateItem tr x of
        (l, r) \<Rightarrow>
          (case translateItems tr xs of
             (l', r') \<Rightarrow>
               (l + l',
                case r of
                  Inl ms \<Rightarrow> (case r' of Inl ms' \<Rightarrow> Inl (ms @ ms') | Inr ys \<Rightarrow> Inl ms)
                | Inr y \<Rightarrow> (case r' of Inl ms' \<Rightarrow> Inl ms' | Inr ys \<Rightarrow> Inr (y # ys)))))"

text \<open>The message of the rejection that reaches the handler.\<close>

definition reported :: "translator \<Rightarrow> string list \<Rightarrow> string" where
  "reported tr ms = (case ms of [m] \<Rightarrow> m | _ \<Rightarrow> earliest tr ms)"

definition failure :: "nat \<Rightarrow> string \<Rightarrow> response" where
  "failure c message =
     \<lparr>res_status = c, res_json = JObj [(''success'', JBool False), (''error'', JStr message)]\<rparr>"

text \<open>
  The handler of POST /api/translate (index.js lines 283-339), after authentication.
  \<open>body\<close> is the parsed JSON object of the request; \<open>translate target\<close> is the external
  service for the chosen target language. The result is the multiset of strings submitted
  to the service and the response.
\<close>

definition translate_handler ::
  "(string \<Rightarrow> translator) \<Rightarrow> (string \<times> jsval) list \<Rightarrow> string multiset \<times> response" where
  "translate_handler translate body =
     (let text = js_get body ''text'';
          targetLanguage = js_get body ''targetLanguage''
      in if \<not> js_truthy text then
           ({#}, \<lparr>res_status = 400,
                  res_json = JObj [(''success'', JBool False),
                                   (''error'', JStr ''No text provided for translation'')]\<rparr>)
         else
           let target = (if targetLanguage = JStr ''hindi'' then ''hi'' else ''en'') in
           (case (case text of
                    JStr s \<Rightarrow> translate_call (translate target) s
                  | _ \<Rightarrow> translateObject (translate target) text) of
              (l, Inr translatedText) \<Rightarrow>
                (l, \<lparr>res_status = 200,
                     res_json = JObj [(''success'', JBool True),
                                      (''translatedText'', translatedText)]\<rparr>)
            | (l, Inl ms) \<Rightarrow>
                (l, \<lparr>res_status = 500,
                     res_json =
                       JObj [(''success'', JBool False),
                             (''error'',
                              JStr (if reported (translate target) ms = []
                                    then ''Translation failed''
                                    else reported (translate target) ms))]\<rparr>)))"

subsection \<open>The translation the specification describes\<close>

text \<open>
  Following the specification's words: a string leaf is translated, a sequence is mapped
  element-wise in its order, a mapping keeps its keys and has each field treated in turn,
  and a value of any other type is passed through unchanged.
\<close>

fun translate_spec :: "(string \<Rightarrow> string) \<Rightarrow> jsval \<Rightarrow> jsval" where
  "translate_spec t (JStr s) = JStr (t s)"
| "translate_spec t (JArr xs) = JArr (map (translate_spec t) xs)"
| "translate_spec t (JObj kvs) = JObj (map (\<lambda>(k, v). (k, translate_spec t v)) kvs)"
| "translate_spec t v = v"

text \<open>The string leaves of a value, in traversal order.\<close>

fun leaves :: "jsval \<Rightarrow> string list" where
  "leaves (JStr s) = [s]"
| "leaves (JArr xs) = concat (map leaves xs)"
| "leaves (JObj kvs) = concat (map (\<lambda>(k, v). leaves v) kvs)"
| "leaves v = []"

text \<open>
  Two values have the same shape when they have the same keys in the same order, arrays of
  the same length, strings where the other has strings, and agree on every other value.
\<close>

fun same_shape :: "jsval \<Rightarrow> jsval \<Rightarrow> bool"
and same_shape_list :: "jsval list \<Rightarrow> jsval list \<Rightarrow> bool"
and same_shape_entries :: "(string \<times> jsval) list \<Rightarrow> (string \<times> jsval) list \<Rightarrow> bool"
where
  "same_shape (JStr s) w = (case w of JStr s' \<Rightarrow> True | _ \<Rightarrow> False)"
| "same_shape (JArr xs) w = (case w of JArr ys \<Rightarrow> same_shape_list xs ys | _ \<Rightarrow> False)"
| "same_shape (JObj kvs) w = (case w of JObj kvs' \<Rightarrow> same_shape_entries kvs kvs' | _ \<Rightarrow> False)"
| "same_shape JUndefined w = (w = JUndefined)"
| "same_shape JNull w = (w = JNull)"
| "same_shape (JBool b) w = (w = JBool b)"
| "same_shape (JNum n) w = (w = JNum n)"
| "same_shape_list [] ys = (ys = [])"
| "same_shape_list (x # xs) ys =
     (case ys of [] \<Rightarrow> False | y # ys' \<Rightarrow> same_shape x y \<and> same_shape_list xs ys')"
| "same_shape_entries [] kvs' = (kvs' = [])"
| "same_shape_entries ((k, v) # kvs) kvs' =
     (case kvs' of
        [] \<Rightarrow> False
      | (k', v') # kvs'' \<Rightarrow> k = k' \<and> same_shape v v' \<and> same_shape_entries kvs kvs'')"

text \<open>
  The values on which the code and the specification agree: a mapping whose fields are
  strings, other scalars, mappings of the same kind, or sequences whose elements are strings
  or such mappings, and in which no key is \<open>__proto__\<close>. Every summary of the documented
  form (\<open>key_points\<close> and \<open>highlights\<close> sequences of strings, \<open>tables\<close> a sequence of
  mappings with a title and a sequence of row mappings) is of this kind.
\<close>

fun structured :: "jsval \<Rightarrow> bool"
and entries_ok :: "(string \<times> jsval) list \<Rightarrow> bool"
and field_ok :: "jsval \<Rightarrow> bool"
and item_ok :: "jsval \<Rightarrow> bool"
and items_ok :: "jsval list \<Rightarrow> bool"
where
  "structured (JObj kvs) = entries_ok kvs"
| "structured JUndefined = False"
| "structured JNull = False"
| "structured (JBool b) = False"
| "structured (JNum n) = False"
| "structured (JStr s) = False"
| "structured (JArr xs) = False"
| "entries_ok [] = True"
| "entries_ok ((k, v) # kvs) = (k \<noteq> ''__proto__'' \<and> field_ok v \<and> entries_ok kvs)"
| "field_ok (JArr xs) = items_ok xs"
| "field_ok (JObj kvs) = entries_ok kvs"
| "field_ok JUndefined = True"
| "field_ok JNull = True"
| "field_ok (JBool b) = True"
| "field_ok (JNum n) = True"
| "field_ok (JStr s) = True"
| "item_ok (JStr s) = True"
| "item_ok (JObj kvs) = entries_ok kvs"
| "item_ok JUndefined = False"
| "item_ok JNull = False"
| "item_ok (JBool b) = False"
| "item_ok (JNum n) = False"
| "item_ok (JArr xs) = False"
| "items_ok [] = True"
| "items_ok (x # xs) = (item_ok x \<and> items_ok xs)"

text \<open>A stub service that answers every call with the target language and the text.\<close>

definition prefix_text :: "string \<Rightarrow> string \<Rightarrow> string" where
  "prefix_text target s = target @ '':'' @ s"

definition prefix_translate :: "string \<Rightarrow> translator" where
  "prefix_translate target = \<lparr>answer = (\<lambda>s. Inr (prefix_text target s)), earliest = hd\<rparr>"

definition sample_summary :: jsval where
  "sample_summary =
     JObj [(''key_points'', JArr [JStr ''a'', JStr ''b'']), (''tables'', JArr []),
           (''highlights'', JArr [JStr ''c''])]"

definition nested_rows :: jsval where
  "nested_rows = JObj [(''rows'', JArr [JArr [JStr ''a'']])]"

definition proto_keyed :: jsval where
  "proto_keyed = JObj [(''__proto__'', JStr ''a''), (''note'', JStr ''b'')]"

section \<open>Document records (the Document model) and the store\<close>

datatype status = uploaded | processing | completed | failed

fun status_str :: "status \<Rightarrow> string" where
  "status_str uploaded = ''uploaded''"
| "status_str processing = ''processing''"
| "status_str completed = ''completed''"
| "status_str failed = ''failed''"

text \<open>The value of a path that the schema declares as \<open>String\<close>: unset, \<open>null\<close> or a string.\<close>

datatype string_path = Unset | Null | Str string

text \<open>
  Mongoose's cast of a value assigned to a \<open>String\<close> path; \<open>None\<close> is a cast error.
  \<open>undefined\<close> unsets the path and \<open>null\<close> is kept, a value with a rendering of its own
  (a number, a boolean) is stored as that rendering, an object that carries a string
  \<open>_id\<close> is stored as that identifier, and an array or any other plain object is refused.
\<close>

fun castString :: "jsval \<Rightarrow> string_path option" where
  "castString JUndefined = Some Unset"
| "castString JNull = Some Null"
| "castString (JBool b) = Some (Str (if b then ''true'' else ''false''))"
| "castString (JNum n) = Some (Str (string_of_int n))"
| "castString (JStr s) = Some (Str s)"
| "castString (JArr xs) = None"
| "castString (JObj kvs) =
     (case map_of kvs ''_id'' of
        Some (JStr i) \<Rightarrow> if i \<noteq> [] then Some (Str i) else None
      | _ \<Rightarrow> None)"

text \<open>
  A stored document: the paths the schema declares (\<open>doc_id\<close> is \<open>_id\<close> and \<open>fsize\<close> is
  \<open>size\<close>). The schema is strict, so nothing else is stored: it declares \<open>summary\<close> as
  a \<open>String\<close> with default \<open>''\<close>, \<open>status\<close> with default \<open>'uploaded'\<close>, \<open>uploadedAt\<close> with
  default \<open>Date.now\<close> and \<open>processedAt\<close> without a default, and it has no path
  \<open>error\<close>, \<open>user\<close> or \<open>uploaderIp\<close>.
\<close>

record document =
  doc_id :: string
  filename :: string
  originalName :: string
  path :: string
  fsize :: nat
  mimetype :: string
  summary :: string_path
  status :: status
  uploadedAt :: nat
  processedAt :: "nat option"

text \<open>
  A document object in memory: the values of the schema paths, the property \<open>error\<close> that
  the handlers assign and read on the object, and the value that a failed cast has left
  pending on \<open>summary\<close>. A document loaded from the store has neither.
\<close>

record loaded =
  doc :: document
  error :: "string option"
  invalid_summary :: "jsval option"

definition hydrate :: "document \<Rightarrow> loaded" where
  "hydrate d = \<lparr>doc = d, error = None, invalid_summary = None\<rparr>"

text \<open>What a loaded document shows as its summary: the schema default fills an unset path.\<close>

definition summary_value :: "document \<Rightarrow> jsval" where
  "summary_value d = (case summary d of Unset \<Rightarrow> JStr [] | Null \<Rightarrow> JNull | Str s \<Rightarrow> JStr s)"

text \<open>
  The assignments of the handlers. An assignment to \<open>summary\<close> goes through the cast: a
  value the cast refuses is not set and stays pending as invalid. \<open>document.error = m\<close>
  sets a property of the object only.
\<close>

definition set_status :: "status \<Rightarrow> loaded \<Rightarrow> loaded" where
  "set_status s document = document\<lparr>doc := (doc document)\<lparr>status := s\<rparr>\<rparr>"

definition set_summary :: "jsval \<Rightarrow> loaded \<Rightarrow> loaded" where
  "set_summary v document =
     (case castString v of
        None \<Rightarrow> document\<lparr>invalid_summary := Some v\<rparr>
      | Some s \<Rightarrow> document\<lparr>doc := (doc document)\<lparr>summary := s\<rparr>, invalid_summary := None\<rparr>)"

definition set_processedAt :: "nat \<Rightarrow> loaded \<Rightarrow> loaded" where
  "set_processedAt t document = document\<lparr>doc := (doc document)\<lparr>processedAt := Some t\<rparr>\<rparr>"

definition set_error :: "string \<Rightarrow> loaded \<Rightarrow> loaded" where
  "set_error m document = document\<lparr>error := Some m\<rparr>"

text \<open>
  The persistent state: the documents collection, in insertion order, and the paths of the
  files in the upload directory.
\<close>

record state =
  docs :: "document list"
  files :: "string list"

text \<open>
  How the query layer treats a filter condition on a path the schema does not declare
  (here \<open>user\<close>): it passes the condition to the store, where no stored document
  satisfies it, or it strips the condition from the filter. Which of the two it does is a
  setting of the library, not of the sources.
\<close>

datatype filter_policy = Passed | Stripped

text \<open>
  What a request meets outside the program: the answer of the NLP service for a file path and
  media type (\<open>Inl\<close> a network failure or a non-success response, \<open>Inr\<close> the
  \<open>summary\<close> field of the response body), the clock, the identifier and file name generated
  for an upload, for each database operation the message it rejects with, if the store
  rejects it, the message of the validation error for a value that a cast has refused,
  the treatment of undeclared filter paths, and which strings the library casts to an
  ObjectId.
\<close>

record env =
  nlp :: "string \<Rightarrow> string \<Rightarrow> string + jsval"
  upload_time :: nat
  process_time :: nat
  new_oid :: string
  stored_filename :: string
  save_new :: "string option"
  find_error :: "string option"
  save_processing :: "string option"
  save_completed :: "string option"
  save_failed :: "string option"
  refetch_error :: "string option"
  query_error :: "string option"
  validation_message :: "jsval \<Rightarrow> string"
  unknown_paths :: filter_policy
  oid_castable :: "string \<Rightarrow> bool"

text \<open>\<open>Document.findById(id)\<close> with the \<open>_id\<close> of a document.\<close>

definition findById :: "document list \<Rightarrow> string \<Rightarrow> document option" where
  "findById ds i = find (\<lambda>d. doc_id d = i) ds"

text \<open>
  \<open>Document.findOne({_id: id, user: uid})\<close> with the identifier of the request. The query
  throws (\<open>Inl\<close>) when the store fails or when the identifier does not cast to an
  ObjectId. No stored document has a \<open>user\<close>.
\<close>

definition findOne :: "env \<Rightarrow> document list \<Rightarrow> string \<Rightarrow> string \<Rightarrow> string + document option" where
  "findOne e ds i uid =
     (case query_error e of
        Some m \<Rightarrow> Inl m
      | None \<Rightarrow>
          if \<not> oid_castable e i then Inl ''Cast to ObjectId failed''
          else Inr (case unknown_paths e of
                      Passed \<Rightarrow> None
                    | Stripped \<Rightarrow> find (\<lambda>d. doc_id d = i) ds))"

text \<open>The write of a loaded document: the stored paths replace those of the stored document.\<close>

definition persist :: "document list \<Rightarrow> document \<Rightarrow> document list" where
  "persist ds d = map (\<lambda>x. if doc_id x = doc_id d then d else x) ds"

text \<open>
  \<open>document.save()\<close> of a loaded document. Validation comes first: a pending cast error
  rejects the save, and stays pending. Then the store accepts or rejects the write.
\<close>

definition save :: "env \<Rightarrow> string option \<Rightarrow> document list \<Rightarrow> loaded \<Rightarrow> string + document list" where
  "save e store_answer ds document =
     (case invalid_summary document of
        Some v \<Rightarrow> Inl (validation_message e v)
      | None \<Rightarrow>
          (case store_answer of
             Some m \<Rightarrow> Inl m
           | None \<Rightarrow> Inr (persist ds (doc document))))"

section \<open>Summarization dispatch and the processing orchestrator (index.js)\<close>

text \<open>\<open>callPythonService\<close> (lines 73-96): every failure is rethrown with one fixed message.\<close>

definition callPythonService :: "env \<Rightarrow> string \<Rightarrow> string \<Rightarrow> string + jsval" where
  "callPythonService e filePath mimetype' =
     (case nlp e filePath mimetype' of
        Inl cause \<Rightarrow> Inl ''Failed to process document with NLP service''
      | Inr s \<Rightarrow> Inr s)"

text \<open>Lines 113-121: a string summary is wrapped, any other value is taken as it is.\<close>

definition normalize_summary :: "jsval \<Rightarrow> jsval" where
  "normalize_summary s =
     (case s of
        JStr t \<Rightarrow> JObj [(''key_points'', JArr [JStr t]), (''tables'', JArr []),
                         (''highlights'', JArr [])]
      | _ \<Rightarrow> s)"

datatype outcome = Resolved | Rejected string

text \<open>
  A run of \<open>processDocument\<close> yields the collection after the run, the versions of the
  document that were written to the store, in order, and whether the promise resolved.
\<close>

type_synonym run = "document list \<times> document list \<times> outcome"

text \<open>The \<open>catch\<close> block (lines 128-135), entered with the document as mutated so far.\<close>

definition catch_block :: "env \<Rightarrow> document list \<Rightarrow> document list \<Rightarrow> loaded \<Rightarrow> string \<Rightarrow> run" where
  "catch_block e ds written document message =
     (let document = set_error message (set_status failed document) in
      case save e (save_failed e) ds document of
        Inl m \<Rightarrow> (ds, written, Rejected m)
      | Inr ds' \<Rightarrow> (ds', written @ [doc document], Resolved))"

text \<open>\<open>processDocument\<close> (lines 98-136).\<close>

definition processDocument :: "env \<Rightarrow> document list \<Rightarrow> string \<Rightarrow> run" where
  "processDocument e ds documentId =
     (case find_error e of
        Some m \<Rightarrow> (ds, [], Resolved)
      | None \<Rightarrow>
          (case findById ds documentId of
             None \<Rightarrow> (ds, [], Resolved)
           | Some found \<Rightarrow>
               let document = set_status processing (hydrate found) in
               (case save e (save_processing e) ds document of
                  Inl m \<Rightarrow> catch_block e ds [] document m
                | Inr ds' \<Rightarrow>
                    (case callPythonService e (path (doc document)) (mimetype (doc document)) of
                       Inl m \<Rightarrow> catch_block e ds' [doc document] document m
                     | Inr s \<Rightarrow>
                         let document' =
                               set_processedAt (process_time e)
                                 (set_status completed
                                    (set_summary (normalize_summary s) document)) in
                         (case save e (save_completed e) ds' document' of
                            Inl m \<Rightarrow> catch_block e ds' [doc document] document' m
                          | Inr ds'' \<Rightarrow>
                              (ds'', [doc document, doc document'], Resolved))))))"

section \<open>Upload (index.js, POST /api/upload)\<close>

text \<open>The file part of the multipart request, as multer sees it.\<close>

record upfile =
  originalname :: string
  file_mimetype :: string
  file_size :: nat

definition allowedTypes :: "string list" where
  "allowedTypes =
     [''application/pdf'',
      ''application/vnd.openxmlformats-officedocument.wordprocessingml.document'',
      ''text/plain'']"

definition fileFilter :: "upfile \<Rightarrow> bool" where
  "fileFilter file = (file_mimetype file \<in> set allowedTypes)"

definition fileSize_limit :: nat where
  "fileSize_limit = 20 * 1024 * 1024"

text \<open>
  \<open>upload.single('document')\<close>: multer asks \<open>fileFilter\<close> first, then streams the file to
  \<open>uploads/\<close> and fails, removing the partial file, when it is longer than the limit.
\<close>

datatype multer_result = MulterError string | NoFile | Stored

definition upload_single :: "env \<Rightarrow> string list \<Rightarrow> upfile option \<Rightarrow> string list \<times> multer_result" where
  "upload_single e fs file =
     (case file of
        None \<Rightarrow> (fs, NoFile)
      | Some f \<Rightarrow>
          if \<not> fileFilter f then
            (fs, MulterError ''Invalid file type. Only PDF, DOCX, and TXT files are allowed.'')
          else if fileSize_limit < file_size f then (fs, MulterError ''File too large'')
          else (fs @ [''uploads/'' @ stored_filename e], Stored))"

text \<open>
  \<open>new Document({...})\<close> (lines 151-159) with the schema defaults. The constructor is
  given \<open>uploaderIp\<close> and \<open>user\<close> as well; the strict schema drops both.
\<close>

definition new_Document :: "env \<Rightarrow> string \<Rightarrow> upfile \<Rightarrow> loaded" where
  "new_Document e uid f =
     hydrate
       \<lparr>doc_id = new_oid e,
        filename = stored_filename e,
        originalName = originalname f,
        path = ''uploads/'' @ stored_filename e,
        fsize = file_size f,
        mimetype = file_mimetype f,
        summary = Str [],
        status = uploaded,
        uploadedAt = upload_time e,
        processedAt = None\<rparr>"

definition jdate :: "nat \<Rightarrow> jsval" where
  "jdate t = JNum (int t)"

definition document_json :: "loaded \<Rightarrow> jsval" where
  "document_json document =
     JObj [(''id'', JStr (doc_id (doc document))),
           (''originalName'', JStr (originalName (doc document))),
           (''status'', JStr (status_str (status (doc document)))),
           (''summary'', summary_value (doc document)),
           (''uploadedAt'', jdate (uploadedAt (doc document))),
           (''processedAt'',
            (case processedAt (doc document) of None \<Rightarrow> JUndefined | Some t \<Rightarrow> jdate t)),
           (''error'', (case error document of None \<Rightarrow> JUndefined | Some m \<Rightarrow> JStr m))]"

text \<open>
  The handler (lines 142-192) behind \<open>upload.single\<close>, for the authenticated user \<open>uid\<close>.
  An error of multer reaches the error middleware (lines 341-347). The first save inserts
  the document; the store rejects a duplicate \<open>_id\<close>. A rejection of
  \<open>processDocument\<close> is caught by the handler.
\<close>

definition upload_handler :: "env \<Rightarrow> string \<Rightarrow> upfile option \<Rightarrow> state \<Rightarrow> state \<times> response" where
  "upload_handler e uid file st =
     (case upload_single e (files st) file of
        (fs, MulterError m) \<Rightarrow> (st, failure 500 (if m = [] then ''Something broke!'' else m))
      | (fs, NoFile) \<Rightarrow> (st, failure 400 ''No file uploaded'')
      | (fs, Stored) \<Rightarrow>
          (case file of
             None \<Rightarrow> (st, failure 400 ''No file uploaded'')
           | Some f \<Rightarrow>
               let document = new_Document e uid f;
                   st1 = st\<lparr>files := fs\<rparr>;
                   err = (\<lambda>m. failure 500 (if m = [] then ''Server error during upload'' else m))
               in
               (case (if doc_id (doc document) \<in> doc_id ` set (docs st)
                      then Some ''E11000 duplicate key error'' else save_new e) of
                  Some m \<Rightarrow> (st1, err m)
                | None \<Rightarrow>
                    (case processDocument e (docs st @ [doc document]) (doc_id (doc document)) of
                       (ds, written, Rejected m) \<Rightarrow> (st1\<lparr>docs := ds\<rparr>, err m)
                     | (ds, written, Resolved) \<Rightarrow>
                         (case refetch_error e of
                            Some m \<Rightarrow> (st1\<lparr>docs := ds\<rparr>, err m)
                          | None \<Rightarrow>
                              (case findById ds (doc_id (doc document)) of
                                 None \<Rightarrow>
                                   (st1\<lparr>docs := ds\<rparr>,
                                    err ''Cannot read properties of null (reading 'status')'')
                               | Some updated \<Rightarrow>
                                   (st1\<lparr>docs := ds\<rparr>,
                                    \<lparr>res_status = 201,
                                     res_json =
                                       JObj [(''success'', JBool True),
                                             (''message'', JStr ''File uploaded and processed successfully.''),
                                             (''documentId'', JStr (doc_id (doc document))),
                                             (''status'', JStr (status_str (status updated))),
                                             (''document'', document_json (hydrate updated))]\<rparr>)))))))"

section \<open>Queries (index.js) and deletion (routes/documents.js)\<close>

text \<open>GET /api/document/:id (lines 194-226).\<close>

definition getDocument_handler :: "env \<Rightarrow> string \<Rightarrow> string \<Rightarrow> state \<Rightarrow> response" where
  "getDocument_handler e uid i st =
     (case findOne e (docs st) i uid of
        Inl m \<Rightarrow> failure 500 ''Server error''
      | Inr None \<Rightarrow> failure 404 ''Document not found''
      | Inr (Some found) \<Rightarrow>
          \<lparr>res_status = 200,
           res_json = JObj [(''success'', JBool True),
                            (''document'', document_json (hydrate found))]\<rparr>)"

text \<open>GET /api/document/:id/status (lines 255-281).\<close>

definition getStatus_handler :: "env \<Rightarrow> string \<Rightarrow> string \<Rightarrow> state \<Rightarrow> response" where
  "getStatus_handler e uid i st =
     (case findOne e (docs st) i uid of
        Inl m \<Rightarrow> failure 500 ''Server error''
      | Inr None \<Rightarrow> failure 404 ''Document not found''
      | Inr (Some found) \<Rightarrow>
          \<lparr>res_status = 200,
           res_json =
             JObj [(''success'', JBool True),
                   (''status'', JStr (status_str (status found))),
                   (''error'', (case error (hydrate found) of
                                  None \<Rightarrow> JUndefined | Some m \<Rightarrow> JStr m))]\<rparr>)"

text \<open>
  GET /api/summaries (lines 228-253): the query
  \<open>find({user, status: 'completed'}).sort('-uploadedAt').limit(20)\<close> and the mapping of each
  document to an entry; \<open>doc.processedAt || doc.uploadedAt\<close> takes \<open>processedAt\<close> when it is set.
\<close>

definition find_summaries :: "env \<Rightarrow> document list \<Rightarrow> string \<Rightarrow> document list" where
  "find_summaries e ds uid =
     take 20 (sort_key (\<lambda>d. - int (uploadedAt d))
                (filter (\<lambda>d. unknown_paths e = Stripped \<and> status d = completed) ds))"

definition summary_entry :: "document \<Rightarrow> jsval" where
  "summary_entry d =
     JObj [(''_id'', JStr (doc_id d)),
           (''title'', JStr (originalName d)),
           (''summary'', summary_value d),
           (''createdAt'', (case processedAt d of
                              Some t \<Rightarrow> jdate t | None \<Rightarrow> jdate (uploadedAt d)))]"

definition listSummaries_handler :: "env \<Rightarrow> string \<Rightarrow> state \<Rightarrow> response" where
  "listSummaries_handler e uid st =
     (case query_error e of
        Some m \<Rightarrow> failure 500 ''Failed to fetch summaries''
      | None \<Rightarrow>
          \<lparr>res_status = 200,
           res_json = JObj [(''summaries'',
                             JArr (map summary_entry (find_summaries e (docs st) uid)))]\<rparr>)"

text \<open>
  DELETE /:id (routes/documents.js lines 155-171): \<open>findOneAndDelete\<close> removes the first
  document that the query matches. The handler touches nothing else.
\<close>

definition delete_handler :: "env \<Rightarrow> string \<Rightarrow> string \<Rightarrow> state \<Rightarrow> state \<times> response" where
  "delete_handler e uid i st =
     (case findOne e (docs st) i uid of
        Inl m \<Rightarrow> (st, failure 500 ''Failed to delete document'')
      | Inr None \<Rightarrow> (st, failure 404 ''Document not found'')
      | Inr (Some found) \<Rightarrow>
          (st\<lparr>docs := remove1 found (docs st)\<rparr>,
           \<lparr>res_status = 200,
            res_json = JObj [(''success'', JBool True),
                             (''message'', JStr ''Document deleted successfully'')]\<rparr>))"

section \<open>The operations of the service\<close>

datatype request =
    Upload "upfile option"
  | GetDocument string
  | GetStatus string
  | ListSummaries
  | Translate "(string \<times> jsval) list"
  | Delete string

definition handle ::
  "env \<Rightarrow> (string \<Rightarrow> translator) \<Rightarrow> string \<Rightarrow> request \<Rightarrow> state \<Rightarrow> state \<times> response" where
  "handle e translate uid req st =
     (case req of
        Upload file \<Rightarrow> upload_handler e uid file st
      | GetDocument i \<Rightarrow> (st, getDocument_handler e uid i st)
      | GetStatus i \<Rightarrow> (st, getStatus_handler e uid i st)
      | ListSummaries \<Rightarrow> (st, listSummaries_handler e uid st)
      | Translate body \<Rightarrow> (st, snd (translate_handler translate body))
      | Delete i \<Rightarrow> delete_handler e uid i st)"

section \<open>Status edges and sample data\<close>

text \<open>
  The edges the specification lists, and the edges the persisted status can take: the edge
  from \<open>uploaded\<close> to \<open>failed\<close> exists only when the write of \<open>processing\<close> was rejected.
\<close>

fun spec_edge :: "status \<Rightarrow> status \<Rightarrow> bool" where
  "spec_edge uploaded processing = True"
| "spec_edge processing completed = True"
| "spec_edge processing failed = True"
| "spec_edge a b = False"

definition persisted_edge :: "bool \<Rightarrow> status \<Rightarrow> status \<Rightarrow> bool" where
  "persisted_edge processing_rejected a b =
     (spec_edge a b \<or> (processing_rejected \<and> a = uploaded \<and> b = failed))"

text \<open>Stub collaborators and a sample upload, for the concrete instances below.\<close>

definition echo_nlp :: "string \<Rightarrow> string \<Rightarrow> string + jsval" where
  "echo_nlp filePath mimetype' = Inr (JStr ''Hello'')"

definition timeout_nlp :: "string \<Rightarrow> string \<Rightarrow> string + jsval" where
  "timeout_nlp filePath mimetype' = Inl ''timeout of 30000ms exceeded''"

definition number_nlp :: "string \<Rightarrow> string \<Rightarrow> string + jsval" where
  "number_nlp filePath mimetype' = Inr (JNum 42)"

text \<open>A stand-in for the library's message, and the identifiers of 24 hexadecimal digits.\<close>

definition cast_failed :: "jsval \<Rightarrow> string" where
  "cast_failed v = ''Document validation failed: summary: Cast to string failed''"

definition hex24 :: "string \<Rightarrow> bool" where
  "hex24 s = (length s = 24 \<and> list_all (\<lambda>c. c \<in> set ''0123456789abcdef'') s)"

definition sample_env :: env where
  "sample_env =
     \<lparr>nlp = echo_nlp, upload_time = 1000, process_time = 1500,
      new_oid = ''650000000000000000000001'', stored_filename = ''1000-42.txt'',
      save_new = None, find_error = None, save_processing = None, save_completed = None,
      save_failed = None, refetch_error = None, query_error = None,
      validation_message = cast_failed, unknown_paths = Stripped, oid_castable = hex24\<rparr>"

definition sample_file :: upfile where
  "sample_file = \<lparr>originalname = ''lease.txt'', file_mimetype = ''text/plain'', file_size = 1\<rparr>"

definition sample_doc :: document where
  "sample_doc = doc (new_Document sample_env ''alice'' sample_file)"

definition empty_state :: state where
  "empty_state = \<lparr>docs = [], files = []\<rparr>"

definition sample_state :: state where
  "sample_state = \<lparr>docs = [sample_doc], files = [''uploads/1000-42.txt'']\<rparr>"

definition exe_file :: upfile where
  "exe_file =
     \<lparr>originalname = ''setup.exe'', file_mimetype = ''application/x-msdownload'',
      file_size = 1\<rparr>"

definition after_number :: state where
  "after_number =
     fst (upload_handler (sample_env\<lparr>nlp := number_nlp\<rparr>) ''alice'' (Some sample_file) empty_state)"

section \<open>Facts about the store\<close>

lemma findById_persist:
  "findById ds i = Some d \<Longrightarrow> doc_id w = i \<Longrightarrow> findById (persist ds w) i = Some w"
  by (induction ds) (auto simp: findById_def persist_def split: if_splits)

lemma persist_keeps_other:
  "r \<in> set ds \<Longrightarrow> doc_id r \<noteq> doc_id w \<Longrightarrow> r \<in> set (persist ds w)"
  by (auto simp: persist_def)

lemma findById_doc_id: "findById ds i = Some d \<Longrightarrow> doc_id d = i"
  by (auto simp: findById_def dest: find_Some_iff[THEN iffD1])

lemmas assign_defs = set_status_def set_summary_def set_processedAt_def set_error_def
  hydrate_def save_def

lemmas sample_defs = sample_doc_def new_Document_def sample_env_def sample_file_def
  sample_state_def echo_nlp_def timeout_nlp_def number_nlp_def hydrate_def empty_state_def

lemmas run_defs = processDocument_def catch_block_def callPythonService_def
  normalize_summary_def findById_def persist_def assign_defs Let_def

text \<open>The collection after a run is the collection before it with the written versions applied.\<close>

lemma processDocument_store:
  "processDocument e ds i = (ds', ws, out) \<Longrightarrow> ds' = foldl persist ds ws"
  by (auto simp: processDocument_def catch_block_def assign_defs Let_def
           split: option.splits sum.splits)

lemma processDocument_keeps_other:
  "r \<in> set ds \<Longrightarrow> doc_id r \<noteq> i \<Longrightarrow> r \<in> set (fst (processDocument e ds i))"
  by (auto simp: processDocument_def catch_block_def assign_defs Let_def
           dest: findById_doc_id intro!: persist_keeps_other
           split: option.splits sum.splits)


lemma string_of_int_42: "string_of_int 42 = ''42''"
  by code_simp

lemma after_number_eq:
  "after_number =
     \<lparr>docs = [sample_doc\<lparr>summary := Str ''42'', status := completed, processedAt := Some 1500\<rparr>],
      files = [''uploads/1000-42.txt'']\<rparr>"
  by (simp add: after_number_def upload_handler_def upload_single_def fileFilter_def
        allowedTypes_def fileSize_limit_def run_defs sample_defs string_of_int_42
        del: string_of_nat.simps)

text \<open>The sample upload when the NLP call times out.\<close>

lemma upload_timeout_eq:
  "upload_handler (sample_env\<lparr>nlp := timeout_nlp\<rparr>) ''alice'' (Some sample_file) empty_state =
     (\<lparr>docs = [sample_doc\<lparr>status := failed\<rparr>], files = [''uploads/1000-42.txt'']\<rparr>,
      \<lparr>res_status = 201,
       res_json =
         JObj [(''success'', JBool True),
               (''message'', JStr ''File uploaded and processed successfully.''),
               (''documentId'', JStr ''650000000000000000000001''),
               (''status'', JStr ''failed''),
               (''document'',
                JObj [(''id'', JStr ''650000000000000000000001''),
                      (''originalName'', JStr ''lease.txt''),
                      (''status'', JStr ''failed''),
                      (''summary'', JStr []),
                      (''uploadedAt'', JNum 1000),
                      (''processedAt'', JUndefined),
                      (''error'', JUndefined)])]\<rparr>)"
  by (simp add: upload_handler_def upload_single_def fileFilter_def allowedTypes_def
        fileSize_limit_def run_defs sample_defs document_json_def summary_value_def jdate_def)

section \<open>The record invariant\<close>

text \<open>
  C1. The claim asks that a failed record carries an error and no summary. The catch
  block assigns \<open>document.error\<close>, but the schema has no such path, so the assignment never
  reaches the store: after an upload whose dispatch times out, the stored record is
  \<open>failed\<close> with the empty default summary, and the document read back for the response
  has no error.
\<close>

theorem failed_record_without_error:
  "upload_handler (sample_env\<lparr>nlp := timeout_nlp\<rparr>) ''alice'' (Some sample_file) empty_state =
     (\<lparr>docs = [sample_doc\<lparr>status := failed\<rparr>], files = [''uploads/1000-42.txt'']\<rparr>,
      \<lparr>res_status = 201,
       res_json =
         JObj [(''success'', JBool True),
               (''message'', JStr ''File uploaded and processed successfully.''),
               (''documentId'', JStr ''650000000000000000000001''),
               (''status'', JStr ''failed''),
               (''document'',
                JObj [(''id'', JStr ''650000000000000000000001''),
                      (''originalName'', JStr ''lease.txt''),
                      (''status'', JStr ''failed''),
                      (''summary'', JStr []),
                      (''uploadedAt'', JNum 1000),
                      (''processedAt'', JUndefined),
                      (''error'', JUndefined)])]\<rparr>)"
  by (rule upload_timeout_eq)

section \<open>Status transitions\<close>

text \<open>
  C2 (amended). When the orchestrator runs on a record with status \<open>uploaded\<close>, the
  status of the persisted record moves only along \<open>uploaded \<rightarrow> processing\<close>,
  \<open>processing \<rightarrow> completed\<close>, \<open>processing \<rightarrow> failed\<close> and, only when the write of
  \<open>processing\<close> is rejected, \<open>uploaded \<rightarrow> failed\<close>. No request other than a deletion
  of the record changes or removes a record that is in the store; in particular a record
  whose status is \<open>completed\<close> or \<open>failed\<close> stays as it is.
\<close>

theorem persisted_status_edges:
  assumes "findById ds i = Some d" and "status d = uploaded"
    and "r \<in> set (docs st)" and "req \<noteq> Delete (doc_id r)"
  shows "successively (persisted_edge (save_processing e \<noteq> None))
           (status d # map status (fst (snd (processDocument e ds i)))) \<and>
         r \<in> set (docs (fst (handle e' translate uid req st)))"
proof
  show "successively (persisted_edge (save_processing e \<noteq> None))
          (status d # map status (fst (snd (processDocument e ds i))))"
    using assms(1,2)
    by (auto simp: processDocument_def catch_block_def assign_defs Let_def persisted_edge_def
             split: option.splits sum.splits)
  show "r \<in> set (docs (fst (handle e' translate uid req st)))"
  proof (cases req)
    case (Upload fl)
    have "r \<in> set (docs (fst (upload_handler e' uid fl st)))"
    proof (cases "processDocument e' (docs st @ [doc (new_Document e' uid (the fl))]) (new_oid e')")
      case (fields ds' ws out)
      have "r \<in> set ds'" if "new_oid e' \<notin> doc_id ` set (docs st)"
      proof -
        have "doc_id r \<noteq> new_oid e'" using that assms(3) by (metis imageI)
        then show ?thesis
          using processDocument_keeps_other[of r "docs st @ [doc (new_Document e' uid (the fl))]" "new_oid e'" e']
            assms(3) fields by simp
      qed
      then show ?thesis
        using assms(3) fields
        by (auto simp: upload_handler_def upload_single_def Let_def new_Document_def hydrate_def
                 split: option.splits if_splits outcome.splits prod.splits multer_result.splits)
    qed
    then show ?thesis using Upload by (simp add: handle_def)
  next
    case (Delete j)
    have "r \<in> set (remove1 d' (docs st))" if "findOne e' (docs st) j uid = Inr (Some d')" for d'
    proof -
      have "doc_id d' = j"
        using that
        by (auto simp: findOne_def split: option.splits if_splits filter_policy.splits
                 dest: find_Some_iff[THEN iffD1])
      then have "r \<noteq> d'" using assms(4) Delete by auto
      then show ?thesis using assms(3) by simp
    qed
    then show ?thesis
      using assms(3) Delete
      by (auto simp: handle_def delete_handler_def split: option.splits sum.splits)
  qed (use assms(3) in \<open>simp_all add: handle_def\<close>)
qed

text \<open>A run on the sample upload in which every write is accepted, and a status query.\<close>

theorem persisted_status_edges_witness:
  "findById [sample_doc] ''650000000000000000000001'' = Some sample_doc \<and>
   status sample_doc = uploaded \<and> sample_doc \<in> set (docs sample_state) \<and>
   GetStatus ''650000000000000000000001'' \<noteq> Delete (doc_id sample_doc) \<and>
   successively (persisted_edge (save_processing (sample_env\<lparr>nlp := number_nlp\<rparr>) \<noteq> None))
     (status sample_doc #
      map status
        (fst (snd (processDocument (sample_env\<lparr>nlp := number_nlp\<rparr>) [sample_doc]
                     ''650000000000000000000001'')))) \<and>
   map status
     (fst (snd (processDocument (sample_env\<lparr>nlp := number_nlp\<rparr>) [sample_doc]
                  ''650000000000000000000001''))) = [processing, completed] \<and>
   sample_doc \<in>
     set (docs (fst (handle sample_env prefix_translate ''bob''
                       (GetStatus ''650000000000000000000001'') sample_state)))"
proof -
  have 1: "findById [sample_doc] ''650000000000000000000001'' = Some sample_doc"
    by (simp add: findById_def sample_defs)
  have 2: "status sample_doc = uploaded" by (simp add: sample_defs)
  have 3: "sample_doc \<in> set (docs sample_state)" by (simp add: sample_state_def)
  have 4: "GetStatus ''650000000000000000000001'' \<noteq> Delete (doc_id sample_doc)" by simp
  have 5: "map status
     (fst (snd (processDocument (sample_env\<lparr>nlp := number_nlp\<rparr>) [sample_doc]
                  ''650000000000000000000001''))) = [processing, completed]"
    by (simp add: run_defs sample_defs string_of_int_42 del: string_of_nat.simps)
  show ?thesis
    using 1 2 3 4 5
      persisted_status_edges[OF 1 2 3 4, of "sample_env\<lparr>nlp := number_nlp\<rparr>" sample_env
        prefix_translate "''bob''"]
    by simp
qed

text \<open>
  When the write of \<open>processing\<close> is rejected and the failure write is accepted, the
  persisted status moves from \<open>uploaded\<close> to \<open>failed\<close>.
\<close>

theorem spec_edges_counterexample:
  "map status
     (fst (snd (processDocument (sample_env\<lparr>save_processing := Some ''write failed''\<rparr>)
                  [sample_doc] ''650000000000000000000001''))) = [failed] \<and>
   \<not> successively spec_edge
       (status sample_doc #
        map status
          (fst (snd (processDocument (sample_env\<lparr>save_processing := Some ''write failed''\<rparr>)
                       [sample_doc] ''650000000000000000000001''))))"
  by (simp add: run_defs sample_defs)

section \<open>Failure of a run\<close>

text \<open>
  C3 (amended). When a run fails and the failure write succeeds, the record is persisted
  with status \<open>failed\<close>. After a failed dispatch its summary and its \<open>processedAt\<close> are
  those it had before the run, so a record that had no summary still has none and
  \<open>processedAt\<close> is not set. After a rejected write of the completed record it carries
  the summary that was being written and \<open>processedAt\<close> is the time of the run.
\<close>

theorem failure_recorded:
  assumes "findById ds i = Some d" and "find_error e = None" and "save_processing e = None"
    and "save_failed e = None"
  shows "(nlp e (path d) (mimetype d) = Inl cause \<longrightarrow>
            findById (fst (processDocument e ds i)) i = Some (d\<lparr>status := failed\<rparr>) \<and>
            snd (snd (processDocument e ds i)) = Resolved) \<and>
         (nlp e (path d) (mimetype d) = Inr v \<and> castString (normalize_summary v) = Some s \<and>
          save_completed e = Some m \<longrightarrow>
            findById (fst (processDocument e ds i)) i =
              Some (d\<lparr>summary := s, status := failed, processedAt := Some (process_time e)\<rparr>) \<and>
            snd (snd (processDocument e ds i)) = Resolved)"
proof -
  let ?p = "d\<lparr>status := processing\<rparr>"
  have i: "doc_id d = i" using assms(1) by (rule findById_doc_id)
  have 1: "findById (persist ds ?p) i = Some ?p"
    using assms(1) i by (simp add: findById_persist)
  have 2: "findById (persist (persist ds ?p) w) i = Some w" if "doc_id w = i" for w
    using 1 that by (simp add: findById_persist)
  have a: "findById (persist (persist ds ?p) (d\<lparr>status := failed\<rparr>)) i = Some (d\<lparr>status := failed\<rparr>)"
    using 2[of "d\<lparr>status := failed\<rparr>"] i by simp
  have b: "findById (persist (persist ds ?p)
              (d\<lparr>summary := s, status := failed, processedAt := Some (process_time e)\<rparr>)) i =
            Some (d\<lparr>summary := s, status := failed, processedAt := Some (process_time e)\<rparr>)"
    using 2[of "d\<lparr>summary := s, status := failed, processedAt := Some (process_time e)\<rparr>"] i
    by simp
  have c: "d\<lparr>summary := s, processedAt := Some (process_time e), status := failed\<rparr> =
           d\<lparr>summary := s, status := failed, processedAt := Some (process_time e)\<rparr>"
    by (cases d) simp
  show ?thesis
    using assms a b
    by (simp add: processDocument_def catch_block_def callPythonService_def assign_defs Let_def c)
qed

text \<open>A run whose NLP call times out, and a run whose completed write the store rejects.\<close>

theorem failure_recorded_witness:
  "findById [sample_doc] ''650000000000000000000001'' = Some sample_doc \<and>
   nlp (sample_env\<lparr>nlp := timeout_nlp\<rparr>) (path sample_doc) (mimetype sample_doc) =
     Inl ''timeout of 30000ms exceeded'' \<and>
   findById (fst (processDocument (sample_env\<lparr>nlp := timeout_nlp\<rparr>) [sample_doc]
                    ''650000000000000000000001'')) ''650000000000000000000001'' =
     Some (sample_doc\<lparr>status := failed\<rparr>) \<and>
   nlp (sample_env\<lparr>nlp := number_nlp, save_completed := Some ''write failed''\<rparr>)
       (path sample_doc) (mimetype sample_doc) = Inr (JNum 42) \<and>
   castString (normalize_summary (JNum 42)) = Some (Str ''42'') \<and>
   findById (fst (processDocument
                    (sample_env\<lparr>nlp := number_nlp, save_completed := Some ''write failed''\<rparr>)
                    [sample_doc] ''650000000000000000000001'')) ''650000000000000000000001'' =
     Some (sample_doc\<lparr>summary := Str ''42'', status := failed, processedAt := Some 1500\<rparr>)"
proof -
  let ?t = "sample_env\<lparr>nlp := timeout_nlp\<rparr>"
  let ?n = "sample_env\<lparr>nlp := number_nlp, save_completed := Some ''write failed''\<rparr>"
  have 1: "findById [sample_doc] ''650000000000000000000001'' = Some sample_doc"
    by (simp add: findById_def sample_defs)
  have t: "find_error ?t = None" "save_processing ?t = None" "save_failed ?t = None"
    by (simp_all add: sample_defs)
  have n: "find_error ?n = None" "save_processing ?n = None" "save_failed ?n = None"
    by (simp_all add: sample_defs)
  have 2: "nlp ?t (path sample_doc) (mimetype sample_doc) = Inl ''timeout of 30000ms exceeded''"
    by (simp add: sample_defs)
  have 3: "nlp ?n (path sample_doc) (mimetype sample_doc) = Inr (JNum 42)"
    by (simp add: sample_defs)
  have 4: "castString (normalize_summary (JNum 42)) = Some (Str ''42'')"
    by (simp add: normalize_summary_def string_of_int_42 del: string_of_nat.simps)
  have 5: "save_completed ?n = Some ''write failed''" "process_time ?n = 1500"
    by (simp_all add: sample_defs)
  note a = failure_recorded[OF 1 t, of "''timeout of 30000ms exceeded''" "JNum 42" "Str ''42''"
      "''write failed''"]
  note b = failure_recorded[OF 1 n, of "''timeout of 30000ms exceeded''" "JNum 42" "Str ''42''"
      "''write failed''"]
  show ?thesis
    using 1 2 3 4 5 a b by simp
qed

text \<open>
  After the timed-out dispatch the record is \<open>failed\<close> and \<open>processedAt\<close> is still unset;
  after the rejected write of the completed record the failed record has a summary. The
  response to the upload whose dispatch timed out shows the record without an error.
\<close>

theorem processedAt_counterexample:
  "map_option status
     (findById (fst (processDocument (sample_env\<lparr>nlp := timeout_nlp\<rparr>) [sample_doc]
                       ''650000000000000000000001'')) ''650000000000000000000001'')
     = Some failed \<and>
   map_option processedAt
     (findById (fst (processDocument (sample_env\<lparr>nlp := timeout_nlp\<rparr>) [sample_doc]
                       ''650000000000000000000001'')) ''650000000000000000000001'')
     = Some None \<and>
   map_option processedAt
     (findById (fst (processDocument (sample_env\<lparr>nlp := timeout_nlp\<rparr>) [sample_doc]
                       ''650000000000000000000001'')) ''650000000000000000000001'')
     \<noteq> Some (Some (process_time (sample_env\<lparr>nlp := timeout_nlp\<rparr>))) \<and>
   map_option status
     (findById (fst (processDocument
                       (sample_env\<lparr>nlp := number_nlp, save_completed := Some ''write failed''\<rparr>)
                       [sample_doc] ''650000000000000000000001'')) ''650000000000000000000001'')
     = Some failed \<and>
   map_option summary_value
     (findById (fst (processDocument
                       (sample_env\<lparr>nlp := number_nlp, save_completed := Some ''write failed''\<rparr>)
                       [sample_doc] ''650000000000000000000001'')) ''650000000000000000000001'')
     = Some (JStr ''42'') \<and>
   upload_handler (sample_env\<lparr>nlp := timeout_nlp\<rparr>) ''alice'' (Some sample_file) empty_state =
     (\<lparr>docs = [sample_doc\<lparr>status := failed\<rparr>], files = [''uploads/1000-42.txt'']\<rparr>,
      \<lparr>res_status = 201,
       res_json =
         JObj [(''success'', JBool True),
               (''message'', JStr ''File uploaded and processed successfully.''),
               (''documentId'', JStr ''650000000000000000000001''),
               (''status'', JStr ''failed''),
               (''document'',
                JObj [(''id'', JStr ''650000000000000000000001''),
                      (''originalName'', JStr ''lease.txt''),
                      (''status'', JStr ''failed''),
                      (''summary'', JStr []),
                      (''uploadedAt'', JNum 1000),
                      (''processedAt'', JUndefined),
                      (''error'', JUndefined)])]\<rparr>)"
  by (simp add: upload_timeout_eq)
     (simp add: run_defs sample_defs summary_value_def string_of_int_42 del: string_of_nat.simps)

section \<open>Normalization of the summary\<close>




section \<open>Rejected uploads\<close>

lemma upload_no_file: "upload_handler e uid None st = (st, failure 400 ''No file uploaded'')"
  by (simp add: upload_handler_def upload_single_def)

lemma upload_bad_type:
  "file_mimetype f \<notin> set allowedTypes \<Longrightarrow>
   upload_handler e uid (Some f) st =
     (st, failure 500 ''Invalid file type. Only PDF, DOCX, and TXT files are allowed.'')"
  by (simp add: upload_handler_def upload_single_def fileFilter_def)

lemma upload_too_large:
  "file_mimetype f \<in> set allowedTypes \<Longrightarrow> 20 * 1024 * 1024 < file_size f \<Longrightarrow>
   upload_handler e uid (Some f) st = (st, failure 500 ''File too large'')"
  by (simp add: upload_handler_def upload_single_def fileFilter_def fileSize_limit_def)

text \<open>
  C5. An upload without a file, with a media type outside the allowed set or with more
  than 20 MB fails with an error response and leaves the state, and so the record store,
  as it was.
\<close>

theorem rejected_upload_persists_nothing:
  assumes "fl = None \<or>
           (\<exists>f. fl = Some f \<and>
                (file_mimetype f \<notin> set allowedTypes \<or> 20 * 1024 * 1024 < file_size f))"
  shows "fst (upload_handler e uid fl st) = st \<and>
         snd (upload_handler e uid fl st) \<in>
           {failure 400 ''No file uploaded'',
            failure 500 ''Invalid file type. Only PDF, DOCX, and TXT files are allowed.'',
            failure 500 ''File too large''}"
proof (cases fl)
  case None
  then show ?thesis by (simp only: upload_no_file fst_conv snd_conv insertI1 simp_thms)
next
  case (Some f)
  show ?thesis
  proof (cases "file_mimetype f \<in> set allowedTypes")
    case True
    then have "20 * 1024 * 1024 < file_size f" using assms Some by auto
    then have "upload_handler e uid fl st = (st, failure 500 ''File too large'')"
      using True Some upload_too_large by simp
    then show ?thesis by (simp only: fst_conv snd_conv insertI1 insertI2 simp_thms)
  next
    case False
    then have "upload_handler e uid fl st =
       (st, failure 500 ''Invalid file type. Only PDF, DOCX, and TXT files are allowed.'')"
      using Some upload_bad_type by simp
    then show ?thesis by (simp only: fst_conv snd_conv insertI1 insertI2 simp_thms)
  qed
qed

text \<open>An executable is rejected and nothing is stored.\<close>

theorem rejected_upload_persists_nothing_witness:
  "file_mimetype exe_file \<notin> set allowedTypes \<and>
   upload_handler sample_env ''alice'' (Some exe_file) empty_state =
     (empty_state, failure 500 ''Invalid file type. Only PDF, DOCX, and TXT files are allowed.'')"
proof -
  have 1: "file_mimetype exe_file \<notin> set allowedTypes"
    by (simp add: exe_file_def allowedTypes_def)
  then have 2: "Some exe_file = None \<or>
           (\<exists>f. Some exe_file = Some f \<and>
                (file_mimetype f \<notin> set allowedTypes \<or> 20 * 1024 * 1024 < file_size f))"
    by simp
  have 3: "snd (upload_handler sample_env ''alice'' (Some exe_file) empty_state) \<noteq>
             failure 400 ''No file uploaded''"
    using 1 by (simp add: upload_bad_type failure_def)
  have 4: "snd (upload_handler sample_env ''alice'' (Some exe_file) empty_state) \<noteq>
             failure 500 ''File too large''"
    using 1 by (simp add: upload_bad_type failure_def)
  show ?thesis
    using 1 3 4 rejected_upload_persists_nothing[OF 2, of sample_env "''alice''" empty_state]
    by (auto simp: prod_eq_iff)
qed

section \<open>Reads of a document\<close>

text \<open>
  C6 (amended). Where the query layer passes the owner condition of the filter to the
  store, and for identifiers that cast to an ObjectId, the status query and the
  document query answer a requester for a record of another user exactly as they answer
  for an identifier that has no record: with the not-found response, when the query
  reaches the store.
\<close>

theorem foreign_record_indistinguishable:
  assumes "unknown_paths e = Passed" and "oid_castable e (doc_id d)" and "oid_castable e j"
    and "d \<in> set (docs st)" and "j \<notin> doc_id ` set (docs st)"
  shows "getStatus_handler e requester (doc_id d) st = getStatus_handler e requester j st \<and>
         getDocument_handler e requester (doc_id d) st = getDocument_handler e requester j st \<and>
         (query_error e = None \<longrightarrow>
            getStatus_handler e requester (doc_id d) st = failure 404 ''Document not found'' \<and>
            getDocument_handler e requester (doc_id d) st = failure 404 ''Document not found'')"
  using assms(1,2,3)
  by (simp add: getStatus_handler_def getDocument_handler_def findOne_def split: option.splits)

text \<open>
  After the upload by \<open>alice\<close> that the NLP service answered with \<open>42\<close>, another user
  asks for her record and for an identifier that has no record.
\<close>

theorem foreign_record_indistinguishable_witness:
  "unknown_paths (sample_env\<lparr>unknown_paths := Passed\<rparr>) = Passed \<and>
   hex24 ''650000000000000000000001'' \<and> hex24 ''650000000000000000000002'' \<and>
   docs after_number =
     [sample_doc\<lparr>summary := Str ''42'', status := completed, processedAt := Some 1500\<rparr>] \<and>
   ''650000000000000000000002'' \<notin> doc_id ` set (docs after_number) \<and>
   getStatus_handler (sample_env\<lparr>unknown_paths := Passed\<rparr>) ''bob''
       ''650000000000000000000001'' after_number = failure 404 ''Document not found'' \<and>
   getStatus_handler (sample_env\<lparr>unknown_paths := Passed\<rparr>) ''bob''
       ''650000000000000000000002'' after_number = failure 404 ''Document not found'' \<and>
   getDocument_handler (sample_env\<lparr>unknown_paths := Passed\<rparr>) ''bob''
       ''650000000000000000000001'' after_number =
     getDocument_handler (sample_env\<lparr>unknown_paths := Passed\<rparr>) ''bob''
       ''650000000000000000000002'' after_number"
proof -
  let ?e = "sample_env\<lparr>unknown_paths := Passed\<rparr>"
  let ?c = "sample_doc\<lparr>summary := Str ''42'', status := completed, processedAt := Some 1500\<rparr>"
  have i: "doc_id ?c = ''650000000000000000000001''" by (simp add: sample_defs)
  have d: "docs after_number = [?c]" by (simp add: after_number_eq)
  have 1: "unknown_paths ?e = Passed" by simp
  have h1: "hex24 ''650000000000000000000001''" by (simp add: hex24_def)
  have h2: "hex24 ''650000000000000000000002''" by (simp add: hex24_def)
  have 2: "oid_castable ?e (doc_id ?c)" using h1 by (simp add: i) (simp add: sample_defs)
  have 3: "oid_castable ?e ''650000000000000000000002''" using h2 by (simp add: sample_defs)
  have 4: "?c \<in> set (docs after_number)" by (simp add: d)
  have 5: "''650000000000000000000002'' \<notin> doc_id ` set (docs after_number)"
    by (simp add: d i)
  have 6: "query_error ?e = None" by (simp add: sample_defs)
  note t = foreign_record_indistinguishable[OF 1 2 3 4 5, of "''bob''"]
  note t' = t[unfolded i]
  have a: "getStatus_handler ?e ''bob'' ''650000000000000000000001'' after_number =
             failure 404 ''Document not found''"
    using t' 6 by blast
  have b: "getStatus_handler ?e ''bob'' ''650000000000000000000002'' after_number =
             getStatus_handler ?e ''bob'' ''650000000000000000000001'' after_number"
    using conjunct1[OF t'] by (rule sym)
  have c: "getDocument_handler ?e ''bob'' ''650000000000000000000001'' after_number =
             getDocument_handler ?e ''bob'' ''650000000000000000000002'' after_number"
    using t' by blast
  show ?thesis
    using 1 h1 h2 d 5 a c by (simp only: b simp_thms)
qed

text \<open>
  An identifier that is not an ObjectId is answered with a server error, not with the
  not-found response. Where the query layer strips the owner condition, another user
  reads the status of the record that \<open>alice\<close> uploaded.
\<close>

theorem unscoped_read_counterexample:
  "getStatus_handler (sample_env\<lparr>unknown_paths := Passed\<rparr>) ''bob''
       ''650000000000000000000001'' after_number = failure 404 ''Document not found'' \<and>
   getStatus_handler (sample_env\<lparr>unknown_paths := Passed\<rparr>) ''bob'' ''no-such-id''
       after_number = failure 500 ''Server error'' \<and>
   getStatus_handler sample_env ''bob'' ''650000000000000000000001'' after_number =
     \<lparr>res_status = 200,
      res_json = JObj [(''success'', JBool True), (''status'', JStr ''completed''),
                       (''error'', JUndefined)]\<rparr> \<and>
   getStatus_handler sample_env ''bob'' ''650000000000000000000002'' after_number =
     failure 404 ''Document not found''"
  by (simp add: getStatus_handler_def findOne_def after_number_eq sample_defs hex24_def)

section \<open>Structure of a translated value\<close>

text \<open>
  On the values described by \<open>structured\<close>, with a translation service that answers
  every call, the code computes what the specification describes and submits each string
  leaf once. An array that reaches \<open>translateObject\<close> itself comes back as
  an object keyed by its indices.
\<close>

lemma string_of_nat_digit:
  "string_of_nat n \<noteq> [] \<and> hd (string_of_nat n) \<in> set ''0123456789''"
proof (induction n rule: string_of_nat.induct)
  case (1 n)
  show ?case
  proof (cases "n < 10")
    case True
    then have "''0123456789'' ! n \<in> set ''0123456789''"
      by (intro nth_mem) simp
    then show ?thesis using True by (subst string_of_nat.simps, subst string_of_nat.simps) simp
  next
    case False
    then show ?thesis using 1 by (subst string_of_nat.simps, subst string_of_nat.simps) simp
  qed
qed

lemma string_of_nat_not_proto: "string_of_nat n \<noteq> ''__proto__''"
proof
  assume "string_of_nat n = ''__proto__''"
  then have "hd (string_of_nat n) = CHR ''_''" by simp
  then show False using string_of_nat_digit[of n] by simp
qed

lemma translate_agrees:
  assumes tr: "\<And>s. answer tr s = Inr (t s)"
  shows "structured v \<Longrightarrow> translateObject tr v = (mset (leaves v), Inr (translate_spec t v))"
    and "entries_ok kvs \<Longrightarrow>
           translateEntries tr kvs =
             (mset (concat (map (\<lambda>(k, v). leaves v) kvs)),
              Inr (map (\<lambda>(k, v). (k, translate_spec t v)) kvs))"
    and "list_all field_ok vs \<Longrightarrow>
           translateIndexed tr i vs =
             (mset (concat (map leaves vs)),
              Inr (zip (map string_of_nat [i ..< i + length vs]) (map (translate_spec t) vs)))"
    and "field_ok w \<Longrightarrow> translateValue tr w = (mset (leaves w), Inr (translate_spec t w))"
    and "item_ok x \<Longrightarrow> translateItem tr x = (mset (leaves x), Inr (translate_spec t x))"
    and "items_ok xs \<Longrightarrow>
           translateItems tr xs = (mset (concat (map leaves xs)), Inr (map (translate_spec t) xs))"
  using tr
proof (induction tr v and tr kvs and tr i vs and tr w and tr x and tr xs
       rule: translateObject_translateEntries_translateIndexed_translateValue_translateItem_translateItems.induct)
qed (simp_all add: translate_call_def assign_def upt_conv_Cons string_of_nat_not_proto
      del: upt_Suc string_of_nat.simps)

lemma same_shape_list_map:
  "(\<And>x. x \<in> set xs \<Longrightarrow> same_shape x (f x)) \<Longrightarrow> same_shape_list xs (map f xs)"
  by (induction xs) simp_all

lemma same_shape_entries_map:
  "\<forall>kv \<in> set kvs. same_shape (snd kv) (f (snd kv)) \<Longrightarrow>
     same_shape_entries kvs (map (\<lambda>(k, v). (k, f v)) kvs)"
  by (induction kvs) auto

lemma same_shape_translate_spec: "same_shape v (translate_spec t v)"
proof (induction v)
  case (JArr xs)
  then show ?case by (simp add: same_shape_list_map)
next
  case (JObj kvs)
  have "same_shape_entries kvs (map (\<lambda>(k, v). (k, translate_spec t v)) kvs)"
    by (rule same_shape_entries_map) (use JObj in force)
  then show ?case by simp
qed simp_all

lemma js_keys_translate_spec: "js_keys (translate_spec t v) = js_keys v"
  by (cases v) (simp_all add: case_prod_unfold comp_def)

text \<open>
  C7 (amended). For every structured value whose sequences hold only strings and mappings
  and in which no key is \<open>__proto__\<close> (every summary of the documented form is one),
  \<open>translateObject\<close> returns a value with exactly the same keys and the same array
  lengths as the input: every string leaf is translated on its own in its original
  position, every nested mapping and sequence is recursed into, every field of another
  type is passed through unchanged, and an empty sequence stays empty. The translate
  request whose \<open>text\<close> is such a value is answered with that value as
  \<open>translatedText\<close>.
\<close>

theorem translateObject_preserves_structure:
  assumes "structured v" and "\<And>target s. answer (translate target) s = Inr (t target s)"
    and "js_get body ''text'' = v"
    and "target = (if js_get body ''targetLanguage'' = JStr ''hindi'' then ''hi'' else ''en'')"
  shows "translateObject (translate target) v =
           (mset (leaves v), Inr (translate_spec (t target) v)) \<and>
         same_shape v (translate_spec (t target) v) \<and>
         js_keys (translate_spec (t target) v) = js_keys v \<and>
         translate_handler translate body =
           (mset (leaves v),
            \<lparr>res_status = 200,
             res_json = JObj [(''success'', JBool True),
                              (''translatedText'', translate_spec (t target) v)]\<rparr>)"
proof -
  have run: "translateObject (translate target) v =
               (mset (leaves v), Inr (translate_spec (t target) v))"
    using translate_agrees(1)[of "translate target" "t target" v] assms(1,2) by simp
  obtain kvs where v: "v = JObj kvs"
    using assms(1) by (cases v) simp_all
  have "translate_handler translate body =
           (mset (leaves v),
            \<lparr>res_status = 200,
             res_json = JObj [(''success'', JBool True),
                              (''translatedText'', translate_spec (t target) v)]\<rparr>)"
    using run assms(3,4) unfolding v by (simp add: translate_handler_def Let_def)
  then show ?thesis
    using run same_shape_translate_spec js_keys_translate_spec by simp
qed

text \<open>The summary \<open>{key_points: [a, b], tables: [], highlights: [c]}\<close>.\<close>

theorem translateObject_preserves_structure_witness:
  "structured sample_summary \<and>
   js_get [(''text'', sample_summary), (''targetLanguage'', JStr ''hindi'')] ''text'' =
     sample_summary \<and>
   translateObject (prefix_translate ''hi'') sample_summary =
     ({#''a'', ''b'', ''c''#},
      Inr (JObj [(''key_points'', JArr [JStr ''hi:a'', JStr ''hi:b'']), (''tables'', JArr []),
                 (''highlights'', JArr [JStr ''hi:c''])])) \<and>
   translate_handler prefix_translate
       [(''text'', sample_summary), (''targetLanguage'', JStr ''hindi'')] =
     ({#''a'', ''b'', ''c''#},
      \<lparr>res_status = 200,
       res_json =
         JObj [(''success'', JBool True),
               (''translatedText'',
                JObj [(''key_points'', JArr [JStr ''hi:a'', JStr ''hi:b'']), (''tables'', JArr []),
                      (''highlights'', JArr [JStr ''hi:c''])])]\<rparr>)"
proof -
  have 1: "structured sample_summary" by (simp add: sample_summary_def)
  have 2: "\<And>target s. answer (prefix_translate target) s = Inr (prefix_text target s)"
    by (simp add: prefix_translate_def)
  have 3: "js_get [(''text'', sample_summary), (''targetLanguage'', JStr ''hindi'')] ''text'' =
             sample_summary"
    by (simp add: js_get_def)
  have 4: "''hi'' =
             (if js_get [(''text'', sample_summary), (''targetLanguage'', JStr ''hindi'')]
                   ''targetLanguage'' = JStr ''hindi''
              then ''hi'' else ''en'')"
    by (simp add: js_get_def)
  have 5: "mset (leaves sample_summary) = {#''a'', ''b'', ''c''#}"
    by (simp add: sample_summary_def)
  have 6: "translate_spec (prefix_text ''hi'') sample_summary =
             JObj [(''key_points'', JArr [JStr ''hi:a'', JStr ''hi:b'']), (''tables'', JArr []),
                   (''highlights'', JArr [JStr ''hi:c''])]"
    by (simp add: sample_summary_def prefix_text_def)
  show ?thesis
    using 1 3 translateObject_preserves_structure[where translate=prefix_translate and t=prefix_text, OF 1 2 3 4]
    by (simp only: 5 6 simp_thms)
qed

text \<open>
  A sequence nested directly in a sequence comes back as a mapping keyed by its indices:
  the callback of \<open>value.map\<close> hands every element that is not a string to
  \<open>translateObject\<close>, which builds an object. A field named \<open>__proto__\<close> is translated
  and then lost.
\<close>

theorem nested_sequence_counterexample:
  "translateObject (prefix_translate ''hi'') nested_rows =
     ({#''a''#}, Inr (JObj [(''rows'', JArr [JObj [(''0'', JStr ''hi:a'')]])])) \<and>
   \<not> same_shape nested_rows (JObj [(''rows'', JArr [JObj [(''0'', JStr ''hi:a'')]])]) \<and>
   translateObject (prefix_translate ''hi'') proto_keyed =
     ({#''a'', ''b''#}, Inr (JObj [(''note'', JStr ''hi:b'')])) \<and>
   js_keys (JObj [(''note'', JStr ''hi:b'')]) \<noteq> js_keys proto_keyed"
  by (simp add: nested_rows_def proto_keyed_def prefix_translate_def prefix_text_def
        translate_call_def assign_def)

section \<open>Listing summaries\<close>

lemma find_summaries_sorted:
  "sorted_wrt (\<lambda>a b. uploadedAt b \<le> uploadedAt a) (find_summaries e ds uid)"
proof -
  let ?k = "\<lambda>d. - int (uploadedAt d)"
  let ?f = "filter (\<lambda>d. unknown_paths e = Stripped \<and> status d = completed) ds"
  have "sorted (map ?k (sort_key ?k ?f))"
    by (rule sorted_sort_key)
  then have "sorted_wrt (\<lambda>a b. uploadedAt b \<le> uploadedAt a) (sort_key ?k ?f)"
    by (simp add: sorted_map)
  then show ?thesis
    unfolding find_summaries_def by (rule sorted_wrt_take)
qed

lemma find_summaries_length: "length (find_summaries e ds uid) \<le> 20"
  by (simp add: find_summaries_def)

lemma find_summaries_subset:
  "d \<in> set (find_summaries e ds uid) \<Longrightarrow> d \<in> set ds \<and> status d = completed"
  unfolding find_summaries_def by (auto dest!: in_set_takeD)

lemma find_summaries_passed: "unknown_paths e = Passed \<Longrightarrow> find_summaries e ds uid = []"
  by (simp add: find_summaries_def)

lemma summary_entry_keys:
  "js_keys (summary_entry d) = [''_id'', ''title'', ''summary'', ''createdAt'']"
  by (simp add: summary_entry_def)

text \<open>
  C8 (amended). The list of summaries holds only records whose status is \<open>completed\<close>,
  ordered by upload time with the newest first, at most 20 of them, each as an entry with
  the keys \<open>_id\<close>, \<open>title\<close>, \<open>summary\<close> and \<open>createdAt\<close>. Where the query layer passes
  the owner condition of the filter to the store, the list is empty.
\<close>

theorem listSummaries_result:
  assumes "query_error e = None"
  shows "listSummaries_handler e uid st =
           \<lparr>res_status = 200,
            res_json =
              JObj [(''summaries'', JArr (map summary_entry (find_summaries e (docs st) uid)))]\<rparr> \<and>
         length (find_summaries e (docs st) uid) \<le> 20 \<and>
         (\<forall>d \<in> set (find_summaries e (docs st) uid).
            d \<in> set (docs st) \<and> status d = completed \<and>
            js_keys (summary_entry d) = [''_id'', ''title'', ''summary'', ''createdAt'']) \<and>
         sorted_wrt (\<lambda>a b. uploadedAt b \<le> uploadedAt a) (find_summaries e (docs st) uid) \<and>
         (unknown_paths e = Passed \<longrightarrow> find_summaries e (docs st) uid = [])"
proof (intro conjI ballI impI)
  show "listSummaries_handler e uid st =
           \<lparr>res_status = 200,
            res_json =
              JObj [(''summaries'', JArr (map summary_entry (find_summaries e (docs st) uid)))]\<rparr>"
    using assms by (simp add: listSummaries_handler_def)
qed (rule find_summaries_length find_summaries_sorted summary_entry_keys
      | drule find_summaries_subset, simp | erule find_summaries_passed)+

text \<open>The list after the upload that the NLP service answered with \<open>42\<close>.\<close>

theorem listSummaries_result_witness:
  "query_error sample_env = None \<and>
   listSummaries_handler sample_env ''alice'' after_number =
     \<lparr>res_status = 200,
      res_json =
        JObj [(''summaries'',
               JArr [JObj [(''_id'', JStr ''650000000000000000000001''),
                           (''title'', JStr ''lease.txt''),
                           (''summary'', JStr ''42''),
                           (''createdAt'', JNum 1500)]])]\<rparr> \<and>
   listSummaries_handler (sample_env\<lparr>unknown_paths := Passed\<rparr>) ''alice'' after_number =
     \<lparr>res_status = 200, res_json = JObj [(''summaries'', JArr [])]\<rparr>"
proof -
  let ?p = "sample_env\<lparr>unknown_paths := Passed\<rparr>"
  let ?c = "sample_doc\<lparr>summary := Str ''42'', status := completed, processedAt := Some 1500\<rparr>"
  have 1: "query_error sample_env = None" by (simp add: sample_defs)
  have p1: "query_error ?p = None" by (simp add: sample_defs)
  have 2: "find_summaries sample_env (docs after_number) ''alice'' = [?c]"
    by (simp add: find_summaries_def after_number_eq) (simp add: sample_env_def)
  have 3: "summary_entry ?c =
             JObj [(''_id'', JStr ''650000000000000000000001''), (''title'', JStr ''lease.txt''),
                   (''summary'', JStr ''42''), (''createdAt'', JNum 1500)]"
    by (simp add: summary_entry_def summary_value_def sample_defs jdate_def)
  have 4: "unknown_paths ?p = Passed" by simp
  note a = listSummaries_result[OF 1, of "''alice''" after_number]
  note b = listSummaries_result[OF p1, of "''alice''" after_number]
  have 5: "find_summaries ?p (docs after_number) ''alice'' = []"
    using b 4 by blast
  show ?thesis
    using 1 a b by (simp add: 2 3 5)
qed

text \<open>
  Where the query layer strips the owner condition, the list of another user holds the
  record that was uploaded by \<open>alice\<close>, and its entry carries the key \<open>_id\<close>, not \<open>id\<close>.
\<close>

theorem summary_entry_id_counterexample:
  "listSummaries_handler sample_env ''bob'' after_number =
     \<lparr>res_status = 200,
      res_json =
        JObj [(''summaries'',
               JArr [JObj [(''_id'', JStr ''650000000000000000000001''),
                           (''title'', JStr ''lease.txt''),
                           (''summary'', JStr ''42''),
                           (''createdAt'', JNum 1500)]])]\<rparr> \<and>
   map js_keys (map summary_entry (find_summaries sample_env (docs after_number) ''bob'')) \<noteq>
     [[''id'', ''title'', ''summary'', ''createdAt'']]"
  by (simp add: listSummaries_handler_def find_summaries_def after_number_eq summary_entry_def
        summary_value_def jdate_def sample_defs)

section \<open>Deletion\<close>

text \<open>
  C9 (amended). A successful deletion by the owner removes the record from the store and
  leaves the files in the upload directory as they were: the stored file of the record
  stays.
\<close>

theorem deletion_keeps_file:
  assumes "query_error e = None" and "findOne e (docs st) i uid = Inr (Some d)"
  shows "delete_handler e uid i st =
           (st\<lparr>docs := remove1 d (docs st)\<rparr>,
            \<lparr>res_status = 200,
             res_json = JObj [(''success'', JBool True),
                              (''message'', JStr ''Document deleted successfully'')]\<rparr>) \<and>
         files (fst (delete_handler e uid i st)) = files st"
  using assms by (simp add: delete_handler_def)

text \<open>The owner deletes the sample record.\<close>

theorem deletion_keeps_file_witness:
  "query_error sample_env = None \<and>
   findOne sample_env (docs sample_state) ''650000000000000000000001'' ''alice'' =
     Inr (Some sample_doc) \<and>
   docs (fst (delete_handler sample_env ''alice'' ''650000000000000000000001'' sample_state)) = [] \<and>
   files (fst (delete_handler sample_env ''alice'' ''650000000000000000000001'' sample_state)) =
     [''uploads/1000-42.txt'']"
proof -
  have 1: "query_error sample_env = None" by (simp add: sample_defs)
  have 2: "findOne sample_env (docs sample_state) ''650000000000000000000001'' ''alice'' =
             Inr (Some sample_doc)"
    by (simp add: findOne_def sample_defs hex24_def)
  show ?thesis
    using 1 2 deletion_keeps_file[OF 1 2] by (simp add: sample_state_def)
qed

text \<open>After the successful deletion the file of the record is still in the upload directory.\<close>

theorem file_released_counterexample:
  "res_status (snd (delete_handler sample_env ''alice'' ''650000000000000000000001'' sample_state)) = 200 \<and>
   docs (fst (delete_handler sample_env ''alice'' ''650000000000000000000001'' sample_state)) = [] \<and>
   path sample_doc \<in>
     set (files (fst (delete_handler sample_env ''alice'' ''650000000000000000000001'' sample_state)))"
  by (simp add: delete_handler_def findOne_def sample_defs hex24_def)

section \<open>Translation requests\<close>

text \<open>
  C10. A translate request whose \<open>text\<close> is absent or the empty string is answered at once
  with status 400 and \<open>{success: false, error}\<close>, and nothing is submitted to the translation
  service; the answer is never the success answer, so success needs a non-empty text.
\<close>

theorem empty_text_rejected:
  assumes "js_get body ''text'' = JUndefined \<or> js_get body ''text'' = JStr []"
  shows "translate_handler translate body =
           ({#}, failure 400 ''No text provided for translation'') \<and>
         res_status (snd (translate_handler translate body)) \<noteq> 200"
  using assms by (auto simp: translate_handler_def failure_def)

text \<open>A request with the empty text.\<close>

theorem empty_text_rejected_witness:
  "js_get [(''text'', JStr []), (''targetLanguage'', JStr ''hindi'')] ''text'' = JStr [] \<and>
   translate_handler prefix_translate [(''text'', JStr []), (''targetLanguage'', JStr ''hindi'')] =
     ({#}, failure 400 ''No text provided for translation'')"
proof -
  have 1: "js_get [(''text'', JStr []), (''targetLanguage'', JStr ''hindi'')] ''text'' = JStr []"
    by (simp add: js_get_def)
  then have 2: "js_get [(''text'', JStr []), (''targetLanguage'', JStr ''hindi'')] ''text'' = JUndefined \<or>
                js_get [(''text'', JStr []), (''targetLanguage'', JStr ''hindi'')] ''text'' = JStr []"
    by simp
  show ?thesis
    using 1 empty_text_rejected[OF 2, of prefix_translate] by simp
qed

end
